theory Spec2Isabelle
  imports Complex_Main "HOL-Library.AList" "HOL-Library.List_Lexorder" "HOL-Library.Char_ord"
begin

section \<open>Ticket engine: \<^verbatim>\<open>TicketsController.create\<close>\<close>

subsection \<open>Data model\<close>

text \<open>
  Modelled from the spec: the enums \<^verbatim>\<open>TicketType\<close>, \<^verbatim>\<open>TicketCategory\<close>,
  \<^verbatim>\<open>TicketStatus\<close> and \<^verbatim>\<open>UserRole\<close> live in \<^verbatim>\<open>db/models\<close>, which the controller
  imports. Their members are the ones the data model of the specification lists; the
  controller and the seed file use the same spellings as string values.
\<close>

datatype TicketType = managementReport | strikeOff | registrationAddressChange | other

datatype TicketCategory = accounting | management | corporate

datatype TicketStatus = status_open | status_resolved

datatype UserRole = accountant | corporateSecretary | director

text \<open>
  Modelled from the spec: the string value of each \<^verbatim>\<open>TicketType\<close> member, which
  \<^verbatim>\<open>Object.values(TicketType).includes(type)\<close> compares the request's type with.
\<close>

definition TicketType_values :: "(string \<times> TicketType) list" where
  "TicketType_values =
     [(''managementReport'', managementReport),
      (''strikeOff'', strikeOff),
      (''registrationAddressChange'', registrationAddressChange),
      (''other'', other)]"

fun UserRole_string :: "UserRole \<Rightarrow> string" where
  "UserRole_string accountant = ''accountant''"
| "UserRole_string corporateSecretary = ''corporateSecretary''"
| "UserRole_string director = ''director''"

record Company =
  company_id :: int

record User =
  user_id :: int
  user_role :: UserRole
  user_companyId :: int
  user_createdAt :: int

record Ticket =
  ticket_id :: int
  ticket_type :: TicketType
  ticket_companyId :: int
  ticket_assigneeId :: int
  ticket_status :: TicketStatus
  ticket_category :: TicketCategory

text \<open>The three tables, and the sequence that numbers new tickets.\<close>

record db =
  companies :: "Company list"
  users :: "User list"
  tickets :: "Ticket list"
  next_ticket_id :: int

text \<open>The request body: either field may be absent.\<close>

record newTicketDto =
  dto_type :: "string option"
  dto_companyId :: "int option"

record TicketDto =
  id_dto :: int
  type_dto :: TicketType
  companyId_dto :: int
  assigneeId_dto :: int
  status_dto :: TicketStatus
  category_dto :: TicketCategory

datatype error =
    BadRequestException string
  | NotFoundException string
  | ConflictException string

subsection \<open>Queries and updates\<close>

text \<open>\<^verbatim>\<open>Company.findByPk(companyId)\<close>\<close>

definition Company_findByPk :: "db \<Rightarrow> int \<Rightarrow> Company option" where
  "Company_findByPk d companyId = find (\<lambda>c. company_id c = companyId) (companies d)"

text \<open>\<^verbatim>\<open>Ticket.findOne({ where: { companyId, type } })\<close>: no condition on the status.\<close>

definition Ticket_findOne :: "db \<Rightarrow> int \<Rightarrow> TicketType \<Rightarrow> Ticket option" where
  "Ticket_findOne d companyId ty =
     find (\<lambda>t. ticket_companyId t = companyId \<and> ticket_type t = ty) (tickets d)"

text \<open>\<^verbatim>\<open>User.findAll({ where: { companyId, role } })\<close>\<close>

definition User_findAll :: "db \<Rightarrow> int \<Rightarrow> UserRole \<Rightarrow> User list" where
  "User_findAll d companyId r =
     filter (\<lambda>u. user_companyId u = companyId \<and> user_role u = r) (users d)"

text \<open>
  The same query with \<^verbatim>\<open>order: [['createdAt', 'DESC']]\<close>. The database leaves the order
  of rows with equal timestamps open; the model keeps them in table order.
\<close>

definition User_findAll_desc :: "db \<Rightarrow> int \<Rightarrow> UserRole \<Rightarrow> User list" where
  "User_findAll_desc d companyId r =
     sort_key (\<lambda>u. - user_createdAt u) (User_findAll d companyId r)"

text \<open>
  \<^verbatim>\<open>Ticket.update({ status: resolved }, { where: { companyId, status: open,
  type: { [Op.ne]: strikeOff } } })\<close>
\<close>

definition resolves :: "int \<Rightarrow> Ticket \<Rightarrow> bool" where
  "resolves companyId t \<longleftrightarrow>
     ticket_companyId t = companyId \<and> ticket_status t = status_open \<and> ticket_type t \<noteq> strikeOff"

definition Ticket_update_resolved :: "int \<Rightarrow> db \<Rightarrow> db" where
  "Ticket_update_resolved companyId d =
     d\<lparr>tickets :=
         map (\<lambda>t. if resolves companyId t then t\<lparr>ticket_status := status_resolved\<rparr> else t)
           (tickets d)\<rparr>"

text \<open>\<^verbatim>\<open>Ticket.create({...})\<close>: the new row gets the next id of the sequence.\<close>

definition Ticket_create ::
  "int \<Rightarrow> int \<Rightarrow> TicketCategory \<Rightarrow> TicketType \<Rightarrow> db \<Rightarrow> Ticket \<times> db" where
  "Ticket_create companyId assigneeId cat ty d =
     (let t = \<lparr>ticket_id = next_ticket_id d, ticket_type = ty, ticket_companyId = companyId,
                ticket_assigneeId = assigneeId, ticket_status = status_open,
                ticket_category = cat\<rparr>
      in (t, d\<lparr>tickets := tickets d @ [t], next_ticket_id := next_ticket_id d + 1\<rparr>))"

definition ticketDto :: "Ticket \<Rightarrow> TicketDto" where
  "ticketDto t =
     \<lparr>id_dto = ticket_id t, type_dto = ticket_type t, companyId_dto = ticket_companyId t,
      assigneeId_dto = ticket_assigneeId t, status_dto = ticket_status t,
      category_dto = ticket_category t\<rparr>"

subsection \<open>The handler\<close>

text \<open>
  Lines 107 to 173: the category and the role of the assignee. The strikeOff branch
  writes to the ticket table, so the database is threaded through.
\<close>

definition category_and_role ::
  "TicketType \<Rightarrow> int \<Rightarrow> db \<Rightarrow> (error + TicketCategory \<times> UserRole) \<times> db" where
  "category_and_role ty companyId d =
     (if ty = managementReport then (Inr (accounting, accountant), d)
      else if ty = strikeOff then
        (let directors = User_findAll d companyId director in
         if length directors = 1 then
           (Inr (management, director), Ticket_update_resolved companyId d)
         else if length directors > 1 then
           (Inl (ConflictException
              ''Multiple directors found. Cannot create a strikeOff ticket''), d)
         else
           (Inl (ConflictException ''No director found. Cannot create a strikeOff ticket''), d))
      else
        (let secretaries = User_findAll d companyId corporateSecretary in
         if length secretaries = 1 then (Inr (corporate, corporateSecretary), d)
         else if length secretaries > 1 then
           (Inl (ConflictException
              ''Multiple corporate secretaries found. Cannot create a ticket''), d)
         else
           (let directors = User_findAll d companyId director in
            if length directors = 1 then (Inr (corporate, director), d)
            else if length directors > 1 then
              (Inl (ConflictException ''Multiple directors found. Cannot create a ticket''), d)
            else
              (Inl (ConflictException ''No suitable assignee found for this ticket type''), d))))"

text \<open>Lines 175 to 204: the assignee, the new row and the returned object.\<close>

definition assign_and_create ::
  "TicketType \<Rightarrow> int \<Rightarrow> TicketCategory \<Rightarrow> UserRole \<Rightarrow> db \<Rightarrow> (error + TicketDto) \<times> db" where
  "assign_and_create ty companyId cat userRole d =
     (case User_findAll_desc d companyId userRole of
        [] \<Rightarrow>
          (Inl (ConflictException
             (''Cannot find user with role '' @ UserRole_string userRole
                @ '' to create a ticket'')), d)
      | assignee # _ \<Rightarrow>
          (let (ticket, d') = Ticket_create companyId (user_id assignee) cat ty d
           in (Inr (ticketDto ticket), d')))"

text \<open>
  The whole of \<^verbatim>\<open>create\<close>. \<^verbatim>\<open>!type\<close> holds of an absent and of an empty string,
  \<^verbatim>\<open>!companyId\<close> of an absent number and of 0.
\<close>

definition create :: "newTicketDto \<Rightarrow> db \<Rightarrow> (error + TicketDto) \<times> db" where
  "create newTicket d =
     (case (dto_type newTicket, dto_companyId newTicket) of
        (Some type_string, Some companyId) \<Rightarrow>
          if type_string = [] \<or> companyId = 0 then
            (Inl (BadRequestException ''Type and companyId are required''), d)
          else
            (case map_of TicketType_values type_string of
               None \<Rightarrow> (Inl (BadRequestException ''Invalid ticket type''), d)
             | Some ty \<Rightarrow>
                 if Company_findByPk d companyId = None then
                   (Inl (NotFoundException ''Company not found''), d)
                 else if ty = registrationAddressChange
                         \<and> Ticket_findOne d companyId registrationAddressChange \<noteq> None then
                   (Inl (ConflictException
                      ''A registrationAddressChange ticket already exists for this company''), d)
                 else
                   (case category_and_role ty companyId d of
                      (Inl e, d1) \<Rightarrow> (Inl e, d1)
                    | (Inr (cat, userRole), d1) \<Rightarrow>
                        assign_and_create ty companyId cat userRole d1))
      | _ \<Rightarrow> (Inl (BadRequestException ''Type and companyId are required''), d))"

text \<open>The request for a ticket of a given type, as a well-formed client sends it.\<close>

fun TicketType_string :: "TicketType \<Rightarrow> string" where
  "TicketType_string managementReport = ''managementReport''"
| "TicketType_string strikeOff = ''strikeOff''"
| "TicketType_string registrationAddressChange = ''registrationAddressChange''"
| "TicketType_string other = ''other''"

definition request :: "TicketType \<Rightarrow> int \<Rightarrow> newTicketDto" where
  "request ty companyId = \<lparr>dto_type = Some (TicketType_string ty), dto_companyId = Some companyId\<rparr>"

section \<open>Ledger reports: \<^verbatim>\<open>ReportsService\<close>\<close>

subsection \<open>Numbers\<close>

text \<open>
  A JavaScript number is a finite value, an infinity or NaN. Finite values are modelled
  as rationals and computed exactly: the rounding of binary floating point and the
  overflow of large values to an infinity are outside the model.
\<close>

datatype number = Fin rat | PInf | NInf | NaN

fun number_add :: "number \<Rightarrow> number \<Rightarrow> number" where
  "number_add NaN _ = NaN"
| "number_add _ NaN = NaN"
| "number_add (Fin a) (Fin b) = Fin (a + b)"
| "number_add PInf NInf = NaN"
| "number_add NInf PInf = NaN"
| "number_add PInf _ = PInf"
| "number_add _ PInf = PInf"
| "number_add NInf _ = NInf"
| "number_add _ NInf = NInf"

fun number_neg :: "number \<Rightarrow> number" where
  "number_neg (Fin a) = Fin (- a)"
| "number_neg PInf = NInf"
| "number_neg NInf = PInf"
| "number_neg NaN = NaN"

definition number_sub :: "number \<Rightarrow> number \<Rightarrow> number" where
  "number_sub a b = number_add a (number_neg b)"

text \<open>\<^verbatim>\<open>!n\<close> for a number: zero and NaN are falsy.\<close>

definition falsy :: "number \<Rightarrow> bool" where
  "falsy n \<longleftrightarrow> n = Fin 0 \<or> n = NaN"

subsection \<open>\<^verbatim>\<open>parseFloat\<close>\<close>

definition is_digit :: "char \<Rightarrow> bool" where
  "is_digit c \<longleftrightarrow> c \<in> set ''0123456789''"

definition digit_value :: "char \<Rightarrow> nat" where
  "digit_value c = of_char c - 48"

definition nat_of_digits :: "string \<Rightarrow> nat" where
  "nat_of_digits ds = foldl (\<lambda>n c. 10 * n + digit_value c) 0 ds"

text \<open>The white space and line terminators of the ASCII range.\<close>

definition is_white_space :: "char \<Rightarrow> bool" where
  "is_white_space c \<longleftrightarrow> c \<in> {CHR 0x09, CHR 0x0A, CHR 0x0B, CHR 0x0C, CHR 0x0D, CHR '' ''}"

text \<open>A sign followed by at least one digit, at the start of the string.\<close>

definition SignedInteger :: "string \<Rightarrow> int option" where
  "SignedInteger s =
     (case s of
        [] \<Rightarrow> None
      | c # r \<Rightarrow>
          if c = CHR ''+'' \<or> c = CHR ''-'' then
            (if takeWhile is_digit r = [] then None
             else Some ((if c = CHR ''-'' then - 1 else 1)
                          * int (nat_of_digits (takeWhile is_digit r))))
          else if takeWhile is_digit s = [] then None
          else Some (int (nat_of_digits (takeWhile is_digit s))))"

text \<open>The exponent that follows the digits, 0 when there is none.\<close>

definition ExponentPart :: "string \<Rightarrow> int" where
  "ExponentPart s =
     (case s of
        [] \<Rightarrow> 0
      | c # r \<Rightarrow>
          if c = CHR ''e'' \<or> c = CHR ''E'' then
            (case SignedInteger r of None \<Rightarrow> 0 | Some e \<Rightarrow> e)
          else 0)"

definition scale10 :: "rat \<Rightarrow> int \<Rightarrow> rat" where
  "scale10 m e = (if 0 \<le> e then m * 10 ^ nat e else m / 10 ^ nat (- e))"

text \<open>
  The value of the longest prefix that is a \<^verbatim>\<open>StrUnsignedDecimalLiteral\<close>:
  \<^verbatim>\<open>Infinity\<close>, digits with an optional fraction and exponent, or a dot followed by
  digits. \<open>None\<close> when no prefix is one.
\<close>

definition StrUnsignedDecimalLiteral :: "string \<Rightarrow> number option" where
  "StrUnsignedDecimalLiteral s =
     (if take 8 s = ''Infinity'' then Some PInf
      else
        (let ip = takeWhile is_digit s; r = dropWhile is_digit s in
         case r of
           [] \<Rightarrow> if ip = [] then None else Some (Fin (of_nat (nat_of_digits ip)))
         | c # r' \<Rightarrow>
             if c = CHR ''.'' \<and> (ip \<noteq> [] \<or> takeWhile is_digit r' \<noteq> []) then
               (let fp = takeWhile is_digit r' in
                Some (Fin (scale10 (of_nat (nat_of_digits (ip @ fp)) / 10 ^ length fp)
                             (ExponentPart (dropWhile is_digit r')))))
             else if ip = [] then None
             else Some (Fin (scale10 (of_nat (nat_of_digits ip)) (ExponentPart r)))))"

definition StrDecimalLiteral :: "string \<Rightarrow> number option" where
  "StrDecimalLiteral s =
     (case s of
        [] \<Rightarrow> None
      | c # r \<Rightarrow>
          if c = CHR ''+'' then StrUnsignedDecimalLiteral r
          else if c = CHR ''-'' then map_option number_neg (StrUnsignedDecimalLiteral r)
          else StrUnsignedDecimalLiteral s)"

definition parseFloat :: "string \<Rightarrow> number" where
  "parseFloat s =
     (case StrDecimalLiteral (dropWhile is_white_space s) of None \<Rightarrow> NaN | Some n \<Rightarrow> n)"

subsection \<open>\<^verbatim>\<open>toFixed(2)\<close> and \<^verbatim>\<open>toString\<close>\<close>

definition digit_char :: "nat \<Rightarrow> char" where
  "digit_char n = ''0123456789'' ! n"

function decimal_digits :: "nat \<Rightarrow> string" where
  "decimal_digits n =
     (if 10 \<le> n then decimal_digits (n div 10) else []) @ [digit_char (n mod 10)]"
  by pat_completeness auto
termination
  by (relation "measure id") auto

declare decimal_digits.simps [simp del]

text \<open>\<^verbatim>\<open>toString()\<close> of an integer.\<close>

definition integer_toString :: "int \<Rightarrow> string" where
  "integer_toString i =
     (if 0 \<le> i then decimal_digits (nat i) else CHR ''-'' # decimal_digits (nat (- i)))"

text \<open>
  \<^verbatim>\<open>x.toFixed(2)\<close>: the sign, then the integer nearest to \<open>100 \<cdot> |x|\<close> (the larger one
  of two), padded to three digits, with a dot before the last two. From \<open>10\<^sup>2\<^sup>1\<close> on
  JavaScript prints the shortest digits of the double in exponent notation instead;
  those digits are outside the model, which prints the decimal expansion there too.
\<close>

definition toFixed2 :: "number \<Rightarrow> string" where
  "toFixed2 x =
     (case x of
        NaN \<Rightarrow> ''NaN''
      | PInf \<Rightarrow> ''Infinity''
      | NInf \<Rightarrow> ''-Infinity''
      | Fin q \<Rightarrow>
          (let n = nat \<lfloor>\<bar>q\<bar> * 100 + 1 / 2\<rfloor>;
               m = decimal_digits n;
               m = replicate (3 - length m) CHR ''0'' @ m
           in (if q < 0 then ''-'' else '''')
                @ take (length m - 2) m @ ''.'' @ drop (length m - 2) m))"

text \<open>\<^verbatim>\<open>n.toString()\<close> of the result of \<^verbatim>\<open>getFullYear()\<close>: an integer, or NaN.\<close>

definition year_toString :: "int option \<Rightarrow> string" where
  "year_toString y = (case y of None \<Rightarrow> ''NaN'' | Some i \<Rightarrow> integer_toString i)"

subsection \<open>Lines and fields\<close>

text \<open>\<^verbatim>\<open>line.split(',')\<close>: never empty, the empty line gives one empty field.\<close>

fun split_on :: "char \<Rightarrow> string \<Rightarrow> string list" where
  "split_on sep [] = [[]]"
| "split_on sep (c # cs) =
     (if c = sep then [] # split_on sep cs
      else (case split_on sep cs of [] \<Rightarrow> [[c]] | w # ws \<Rightarrow> (c # w) # ws))"

text \<open>An element of the destructured array: \<open>None\<close> is \<^verbatim>\<open>undefined\<close>.\<close>

definition field :: "string list \<Rightarrow> nat \<Rightarrow> string option" where
  "field cells i = (if i < length cells then Some (cells ! i) else None)"

text \<open>\<^verbatim>\<open>parseFloat(x || '0')\<close>: an absent and an empty field read as \<^verbatim>\<open>'0'\<close>.\<close>

definition amount :: "string option \<Rightarrow> number" where
  "amount x = parseFloat (case x of None \<Rightarrow> ''0'' | Some s \<Rightarrow> if s = [] then ''0'' else s)"

text \<open>\<^verbatim>\<open>parseFloat(debit || '0') - parseFloat(credit || '0')\<close>, the fourth and fifth field.\<close>

definition line_amount :: "string list \<Rightarrow> number" where
  "line_amount cells = number_sub (amount (field cells 3)) (amount (field cells 4))"

subsection \<open>Plain objects used as dictionaries\<close>

text \<open>
  The values that a property of \<^verbatim>\<open>accountBalances\<close> or \<^verbatim>\<open>cashByYear\<close> can hold.
  \<open>NonNumber\<close> stands for the truthy values that are not numbers: the functions
  and the object inherited from \<^verbatim>\<open>Object.prototype\<close>, and the strings that
  \<^verbatim>\<open>+=\<close> makes of them.
\<close>

datatype jsval = Undefined | Num number | NonNumber

text \<open>The own properties, in creation order.\<close>

type_synonym object = "(string \<times> jsval) list"

text \<open>The properties every plain object inherits.\<close>

definition Object_prototype_keys :: "string list" where
  "Object_prototype_keys =
     [''constructor'', ''__defineGetter__'', ''__defineSetter__'', ''hasOwnProperty'',
      ''__lookupGetter__'', ''__lookupSetter__'', ''isPrototypeOf'', ''propertyIsEnumerable'',
      ''toString'', ''valueOf'', ''__proto__'', ''toLocaleString'']"

text \<open>\<^verbatim>\<open>obj[key]\<close>: the own property, else the inherited one, else \<^verbatim>\<open>undefined\<close>.\<close>

definition obj_get :: "object \<Rightarrow> string \<Rightarrow> jsval" where
  "obj_get obj k =
     (case map_of obj k of
        Some v \<Rightarrow> v
      | None \<Rightarrow> if k \<in> set Object_prototype_keys then NonNumber else Undefined)"

text \<open>
  \<^verbatim>\<open>obj[key] = v\<close> for a primitive \<open>v\<close>: the setter of \<^verbatim>\<open>__proto__\<close> ignores it,
  any other key becomes or stays an own property.
\<close>

definition obj_set :: "object \<Rightarrow> string \<Rightarrow> jsval \<Rightarrow> object" where
  "obj_set obj k v = (if k = ''__proto__'' then obj else AList.update k v obj)"

text \<open>\<^verbatim>\<open>!v\<close>\<close>

fun js_not :: "jsval \<Rightarrow> bool" where
  "js_not Undefined = True"
| "js_not (Num n) = falsy n"
| "js_not NonNumber = False"

text \<open>
  \<^verbatim>\<open>v + n\<close> for a number \<open>n\<close>: addition of numbers, NaN for \<^verbatim>\<open>undefined\<close>,
  string concatenation otherwise.
\<close>

fun js_plus :: "jsval \<Rightarrow> number \<Rightarrow> jsval" where
  "js_plus (Num a) n = Num (number_add a n)"
| "js_plus Undefined n = Num NaN"
| "js_plus NonNumber n = NonNumber"

text \<open>
  A property key that is an array index: a canonical decimal numeral below \<open>2\<^sup>3\<^sup>2 - 1\<close>.
  The own keys of an object are enumerated with the array indices first, in ascending
  numeric order, and the other strings after them in creation order.
\<close>

definition is_array_index :: "string \<Rightarrow> bool" where
  "is_array_index k \<longleftrightarrow>
     k \<noteq> [] \<and> list_all is_digit k \<and> (k = ''0'' \<or> hd k \<noteq> CHR ''0'')
       \<and> int (nat_of_digits k) < 2 ^ 32 - 1"

definition Object_entries :: "object \<Rightarrow> (string \<times> jsval) list" where
  "Object_entries obj =
     sort_key (\<lambda>(k, v). nat_of_digits k) (filter (\<lambda>(k, v). is_array_index k) obj)
     @ filter (\<lambda>(k, v). \<not> is_array_index k) obj"

definition Object_keys :: "object \<Rightarrow> string list" where
  "Object_keys obj = map fst (Object_entries obj)"

text \<open>The key that \<^verbatim>\<open>obj[account]\<close> uses: \<^verbatim>\<open>undefined\<close> becomes a string.\<close>

definition property_key :: "string option \<Rightarrow> string" where
  "property_key x = (case x of None \<Rightarrow> ''undefined'' | Some s \<Rightarrow> s)"

subsection \<open>\<^verbatim>\<open>accounts\<close>\<close>

text \<open>The body of the inner loop, lines 85 to 90.\<close>

definition accounts_line :: "object \<Rightarrow> string \<Rightarrow> object" where
  "accounts_line accountBalances line =
     (let cells = split_on CHR '','' line;
          account = property_key (field cells 1);
          accountBalances =
            (if js_not (obj_get accountBalances account)
             then obj_set accountBalances account (Num (Fin 0)) else accountBalances)
      in obj_set accountBalances account
           (js_plus (obj_get accountBalances account) (line_amount cells)))"

text \<open>
  The output loop, lines 96 to 98. \<^verbatim>\<open>balance.toFixed\<close> is a function only for a
  number; calling it on another value throws, which the handler catches.
\<close>

fun balance_rows :: "(string \<times> jsval) list \<Rightarrow> string + string list" where
  "balance_rows [] = Inr []"
| "balance_rows ((key, balance) # entries) =
     (case balance of
        Num n \<Rightarrow>
          (case balance_rows entries of
             Inl e \<Rightarrow> Inl e
           | Inr rows \<Rightarrow> Inr ((key @ '','' @ toFixed2 n) # rows))
      | _ \<Rightarrow> Inl ''balance.toFixed is not a function'')"

text \<open>
  The report, from the lines of every file to the lines written to
  \<^verbatim>\<open>out/accounts.csv\<close>, or the message of the caught exception.
  \<open>allFileData\<close> is what \<^verbatim>\<open>getFileData\<close> returns: for each CSV file of the input
  directory, in the order of the directory listing, its content trimmed and split at the
  line feeds. Reading the directory and writing the file are outside the model.
\<close>

definition accounts :: "string list list \<Rightarrow> string + string list" where
  "accounts allFileData =
     (let accountBalances =
            foldl (\<lambda>balances fileLines. foldl accounts_line balances fileLines) [] allFileData
      in case balance_rows (Object_entries accountBalances) of
           Inl e \<Rightarrow> Inl e
         | Inr rows \<Rightarrow> Inr (''Account,Balance'' # rows))"

subsection \<open>\<^verbatim>\<open>yearly\<close>\<close>

text \<open>
  \<^verbatim>\<open>new Date(date).getFullYear()\<close> depends on the date formats the engine accepts and
  on the time zone of the process. It is a parameter of the model: \<open>None\<close> is the NaN
  of an invalid date.
\<close>

definition yearly_line :: "(string \<Rightarrow> int option) \<Rightarrow> object \<Rightarrow> string \<Rightarrow> object" where
  "yearly_line getFullYear cashByYear line =
     (let cells = split_on CHR '','' line in
      if field cells 1 = Some ''Cash'' then
        (let year = year_toString (getFullYear (hd cells));
             cashByYear =
               (if js_not (obj_get cashByYear year)
                then obj_set cashByYear year (Num (Fin 0)) else cashByYear)
         in obj_set cashByYear year (js_plus (obj_get cashByYear year) (line_amount cells)))
      else cashByYear)"

text \<open>Lines 138 to 141: the keys sorted as strings, one row for each.\<close>

definition yearly_rows :: "object \<Rightarrow> string + string list" where
  "yearly_rows cashByYear =
     balance_rows (map (\<lambda>year. (year, obj_get cashByYear year)) (sort (Object_keys cashByYear)))"

definition yearly :: "(string \<Rightarrow> int option) \<Rightarrow> string list list \<Rightarrow> string + string list" where
  "yearly getFullYear allFileData =
     (let cashByYear =
            foldl (\<lambda>cash fileLines. foldl (yearly_line getFullYear) cash fileLines) []
              allFileData
      in case yearly_rows cashByYear of
           Inl e \<Rightarrow> Inl e
         | Inr rows \<Rightarrow> Inr (''Financial Year,Cash Balance'' # rows))"

subsection \<open>\<^verbatim>\<open>fs\<close>\<close>

text \<open>\<^verbatim>\<open>FINANCIAL_CATEGORIES\<close>\<close>

definition Revenues :: "string list" where
  "Revenues = [''Sales Revenue'']"

definition Expenses :: "string list" where
  "Expenses =
     [''Cost of Goods Sold'', ''Salaries Expense'', ''Rent Expense'', ''Utilities Expense'',
      ''Interest Expense'', ''Tax Expense'']"

definition Assets :: "string list" where
  "Assets =
     [''Cash'', ''Accounts Receivable'', ''Inventory'', ''Fixed Assets'', ''Prepaid Expenses'']"

definition Liabilities :: "string list" where
  "Liabilities =
     [''Accounts Payable'', ''Loan Payable'', ''Sales Tax Payable'', ''Accrued Liabilities'',
      ''Unearned Revenue'', ''Dividends Payable'']"

definition Equity :: "string list" where
  "Equity = [''Common Stock'', ''Retained Earnings'']"

text \<open>
  Lines 162 to 171: every account of the taxonomy starts at 0. None of these names is
  inherited or an array index, so \<^verbatim>\<open>balances\<close> is a list of numbers in this order.
\<close>

type_synonym balances = "(string \<times> number) list"

definition initial_balances :: balances where
  "initial_balances =
     map (\<lambda>account. (account, Fin 0)) (Revenues @ Expenses @ Assets @ Liabilities @ Equity)"

definition relevantAccounts :: "string set" where
  "relevantAccounts = set (map fst initial_balances)"

text \<open>
  The body of the inner loop, lines 181 to 185. \<^verbatim>\<open>balances[account]\<close> is
  \<^verbatim>\<open>undefined\<close> for a missing key, and \<^verbatim>\<open>undefined + n\<close> is NaN.
\<close>

definition fs_line :: "balances \<Rightarrow> string \<Rightarrow> balances" where
  "fs_line balances line =
     (let cells = split_on CHR '','' line in
      case field cells 1 of
        None \<Rightarrow> balances
      | Some account \<Rightarrow>
          if account \<in> relevantAccounts then
            AList.update account
              (case map_of balances account of
                 None \<Rightarrow> NaN
               | Some balance \<Rightarrow> number_add balance (line_amount cells))
              balances
          else balances)"

text \<open>\<^verbatim>\<open>balances[account] || 0\<close>\<close>

definition value_or_zero :: "number option \<Rightarrow> number" where
  "value_or_zero v = (case v of None \<Rightarrow> Fin 0 | Some n \<Rightarrow> if falsy n then Fin 0 else n)"

text \<open>
  One of the five loops over a group of accounts: a row for each account, and the running
  total.
\<close>

definition group_rows ::
  "balances \<Rightarrow> string list \<Rightarrow> string list \<times> number \<Rightarrow> string list \<times> number" where
  "group_rows balances accountGroup start =
     foldl (\<lambda>(output, total) account.
              (let v = value_or_zero (map_of balances account)
               in (output @ [account @ '','' @ toFixed2 v], number_add total v)))
       start accountGroup"

definition fs_balances :: "string list list \<Rightarrow> balances" where
  "fs_balances allFileData =
     foldl (\<lambda>balances fileLines. foldl fs_line balances fileLines) initial_balances allFileData"

text \<open>Lines 189 to 258: the lines written to \<^verbatim>\<open>out/fs.csv\<close>.\<close>

definition fs_output :: "balances \<Rightarrow> string list" where
  "fs_output balances =
     (let output = [''Basic Financial Statement'', '''', ''Income Statement''];
          (output, totalRevenue) = group_rows balances Revenues (output, Fin 0);
          (output, totalExpenses) = group_rows balances Expenses (output, Fin 0);
          netIncome = number_sub totalRevenue totalExpenses;
          output = output
            @ [''Net Income,'' @ toFixed2 netIncome, '''', ''Balance Sheet'', ''Assets''];
          (output, totalAssets) = group_rows balances Assets (output, Fin 0);
          output = output @ [''Total Assets,'' @ toFixed2 totalAssets, '''', ''Liabilities''];
          (output, totalLiabilities) = group_rows balances Liabilities (output, Fin 0);
          output = output
            @ [''Total Liabilities,'' @ toFixed2 totalLiabilities, '''', ''Equity''];
          (output, totalEquity) = group_rows balances Equity (output, Fin 0);
          output = output @ [''Retained Earnings (Net Income),'' @ toFixed2 netIncome];
          totalEquity = number_add totalEquity netIncome;
          output = output @ [''Total Equity,'' @ toFixed2 totalEquity, ''''];
          output = output
            @ [''Assets = Liabilities + Equity, '' @ toFixed2 totalAssets @ '' = ''
                 @ toFixed2 (number_add totalLiabilities totalEquity)]
      in output)"

definition fs :: "string list list \<Rightarrow> string list" where
  "fs allFileData = fs_output (fs_balances allFileData)"

section \<open>Notions used in the statements\<close>

subsection \<open>Tickets\<close>

definition has_ticket :: "db \<Rightarrow> int \<Rightarrow> TicketType \<Rightarrow> bool" where
  "has_ticket d companyId ty \<longleftrightarrow>
     (\<exists>t \<in> set (tickets d). ticket_companyId t = companyId \<and> ticket_type t = ty)"

definition has_open_ticket :: "db \<Rightarrow> int \<Rightarrow> TicketType \<Rightarrow> bool" where
  "has_open_ticket d companyId ty \<longleftrightarrow>
     (\<exists>t \<in> set (tickets d). ticket_companyId t = companyId \<and> ticket_type t = ty
        \<and> ticket_status t = status_open)"

text \<open>
  A database for the examples. Company 1 has one user of each role, as the seed file
  creates them; company 2 has two accountants and two directors; company 3 has a director
  only. The registrationAddressChange ticket of company 1 is resolved.
\<close>

definition acme_db :: db where
  "acme_db =
     \<lparr>companies = [\<lparr>company_id = 1\<rparr>, \<lparr>company_id = 2\<rparr>, \<lparr>company_id = 3\<rparr>],
      users =
        [\<lparr>user_id = 1, user_role = accountant, user_companyId = 1, user_createdAt = 100\<rparr>,
         \<lparr>user_id = 2, user_role = corporateSecretary, user_companyId = 1, user_createdAt = 100\<rparr>,
         \<lparr>user_id = 3, user_role = director, user_companyId = 1, user_createdAt = 100\<rparr>,
         \<lparr>user_id = 4, user_role = accountant, user_companyId = 2, user_createdAt = 200\<rparr>,
         \<lparr>user_id = 5, user_role = accountant, user_companyId = 2, user_createdAt = 300\<rparr>,
         \<lparr>user_id = 6, user_role = director, user_companyId = 2, user_createdAt = 200\<rparr>,
         \<lparr>user_id = 7, user_role = director, user_companyId = 2, user_createdAt = 250\<rparr>,
         \<lparr>user_id = 8, user_role = director, user_companyId = 3, user_createdAt = 400\<rparr>],
      tickets =
        [\<lparr>ticket_id = 1, ticket_type = managementReport, ticket_companyId = 1,
          ticket_assigneeId = 1, ticket_status = status_open, ticket_category = accounting\<rparr>,
         \<lparr>ticket_id = 2, ticket_type = registrationAddressChange, ticket_companyId = 1,
          ticket_assigneeId = 2, ticket_status = status_resolved, ticket_category = corporate\<rparr>,
         \<lparr>ticket_id = 3, ticket_type = strikeOff, ticket_companyId = 1,
          ticket_assigneeId = 3, ticket_status = status_open, ticket_category = management\<rparr>,
         \<lparr>ticket_id = 4, ticket_type = managementReport, ticket_companyId = 2,
          ticket_assigneeId = 4, ticket_status = status_open, ticket_category = accounting\<rparr>],
      next_ticket_id = 5\<rparr>"

subsection \<open>Reports\<close>

text \<open>The account, the debit and the credit that a report reads from a line.\<close>

definition account_of :: "string \<Rightarrow> string" where
  "account_of line = property_key (field (split_on CHR '','' line) 1)"

definition debit_of :: "string \<Rightarrow> number" where
  "debit_of line = amount (field (split_on CHR '','' line) 3)"

definition credit_of :: "string \<Rightarrow> number" where
  "credit_of line = amount (field (split_on CHR '','' line) 4)"

text \<open>A line whose debit and credit both read as finite numbers.\<close>

definition is_finite :: "number \<Rightarrow> bool" where
  "is_finite n = (case n of Fin q \<Rightarrow> True | _ \<Rightarrow> False)"

definition numeric_line :: "string \<Rightarrow> bool" where
  "numeric_line line \<longleftrightarrow> is_finite (debit_of line) \<and> is_finite (credit_of line)"

definition fin_value :: "number \<Rightarrow> rat" where
  "fin_value n = (case n of Fin q \<Rightarrow> q | _ \<Rightarrow> 0)"


text \<open>
  The balance that \<^verbatim>\<open>accounts\<close> and \<^verbatim>\<open>yearly\<close> reach after the given lines of
  one key: the amounts are added in order, and the addition starts again from 0 whenever
  the balance so far is 0 or NaN.
\<close>

definition restart_add :: "number \<Rightarrow> number \<Rightarrow> number" where
  "restart_add balance n = number_add (if falsy balance then Fin 0 else balance) n"

definition running_balance :: "string list \<Rightarrow> number" where
  "running_balance ls =
     foldl restart_add (Fin 0) (map (\<lambda>l. line_amount (split_on CHR '','' l)) ls)"

text \<open>The distinct elements of a list, each at its first occurrence.\<close>

definition first_seen :: "'a list \<Rightarrow> 'a list" where
  "first_seen xs = rev (remdups (rev xs))"



text \<open>The lines that the yearly report reads, and the key it files them under.\<close>

definition is_cash :: "string \<Rightarrow> bool" where
  "is_cash line \<longleftrightarrow> field (split_on CHR '','' line) 1 = Some ''Cash''"


text \<open>
  The balance the financial statement accumulates for an account: the amounts of the
  lines with that account, added in order, starting from 0.
\<close>

definition fs_balance :: "string list \<Rightarrow> string \<Rightarrow> number" where
  "fs_balance ls account =
     foldl number_add (Fin 0)
       (map (\<lambda>l. line_amount (split_on CHR '','' l))
          (filter (\<lambda>l. field (split_on CHR '','' l) 1 = Some account) ls))"

text \<open>The value a row of the statement shows for an account, and the sum over a group.\<close>

definition shown :: "string list \<Rightarrow> string \<Rightarrow> number" where
  "shown ls account = value_or_zero (Some (fs_balance ls account))"

definition group_total :: "string list \<Rightarrow> string list \<Rightarrow> number" where
  "group_total ls accountGroup = foldl number_add (Fin 0) (map (shown ls) accountGroup)"

definition net_income :: "string list \<Rightarrow> number" where
  "net_income ls = number_sub (group_total ls Revenues) (group_total ls Expenses)"


text \<open>A year extraction for the examples: the four leading digits.\<close>

definition leading_year :: "string \<Rightarrow> int option" where
  "leading_year date =
     (if length (takeWhile is_digit date) = 4 then Some (int (nat_of_digits (take 4 date)))
      else None)"

text \<open>The rows of a group of accounts in the financial statement.\<close>

definition rows :: "string list \<Rightarrow> string list \<Rightarrow> string list" where
  "rows ls grp = map (\<lambda>a. a @ '','' @ toFixed2 (shown ls a)) grp"

subsection \<open>Example files\<close>




text \<open>A debit that is not a number, after a well-formed line and before another.\<close>

definition file_malformed :: "string list" where
  "file_malformed = [''2024-01-01,Cash,memo,100,0'', ''2024-01-02,Cash,memo,abc,0'']"

definition file_restart :: "string list" where
  "file_restart = file_malformed @ [''2024-01-03,Cash,memo,5,0'']"




section \<open>The ticket engine: lemmas and theorems\<close>

subsection \<open>Queries\<close>

lemma TicketType_roundtrip: "map_of TicketType_values (TicketType_string ty) = Some ty"
  by (cases ty) (simp_all add: TicketType_values_def)

lemma create_request:
  assumes "companyId \<noteq> 0" "Company_findByPk d companyId \<noteq> None"
  shows "create (request ty companyId) d =
     (if ty = registrationAddressChange
           \<and> Ticket_findOne d companyId registrationAddressChange \<noteq> None then
        (Inl (ConflictException
           ''A registrationAddressChange ticket already exists for this company''), d)
      else
        (case category_and_role ty companyId d of
           (Inl e, d1) \<Rightarrow> (Inl e, d1)
         | (Inr (cat, userRole), d1) \<Rightarrow> assign_and_create ty companyId cat userRole d1))"
proof -
  have "TicketType_string ty \<noteq> []" by (cases ty) simp_all
  with assms show ?thesis
    by (auto simp add: create_def request_def TicketType_roundtrip)
qed

lemma User_findAll_update [simp]:
  "User_findAll (Ticket_update_resolved c d) companyId r = User_findAll d companyId r"
  by (simp add: User_findAll_def Ticket_update_resolved_def)

lemma User_findAll_desc_set:
  "set (User_findAll_desc d companyId r) = set (User_findAll d companyId r)"
  by (simp add: User_findAll_desc_def)

lemma User_findAll_desc_single:
  "User_findAll d companyId r = [u] \<Longrightarrow> User_findAll_desc d companyId r = [u]"
  by (simp add: User_findAll_desc_def)

lemma User_findAll_desc_Nil:
  "User_findAll_desc d companyId r = [] \<longleftrightarrow> User_findAll d companyId r = []"
  by (metis User_findAll_desc_set set_empty)

lemma length_one: "length xs = Suc 0 \<longleftrightarrow> (\<exists>x. xs = [x])"
  by (cases xs) auto

lemma User_findAll_desc_hd:
  assumes "User_findAll_desc d companyId r = a # as"
  shows "a \<in> set (User_findAll d companyId r)
       \<and> (\<forall>u \<in> set (User_findAll d companyId r). user_createdAt u \<le> user_createdAt a)"
proof -
  let ?xs = "User_findAll d companyId r"
  let ?k = "\<lambda>u. - user_createdAt u"
  have s: "sorted (map ?k (a # as))"
    using assms sorted_sort_key [of ?k ?xs] by (simp add: User_findAll_desc_def)
  have e: "set (a # as) = set ?xs"
    using assms User_findAll_desc_set [of d companyId r] by simp
  from e have "a \<in> set ?xs" by auto
  moreover have "\<forall>u \<in> set ?xs. user_createdAt u \<le> user_createdAt a"
    using s e by auto
  ultimately show ?thesis by blast
qed

lemma Ticket_findOne_None:
  "Ticket_findOne d companyId ty = None \<longleftrightarrow> \<not> has_ticket d companyId ty"
  by (auto simp: Ticket_findOne_def has_ticket_def find_None_iff)

lemma category_and_role_error:
  "category_and_role ty companyId d = (Inl e, d1) \<Longrightarrow> d1 = d"
  by (auto simp: category_and_role_def Let_def split: if_splits)

lemma category_and_role_users:
  "category_and_role ty companyId d = (Inr (cat, r), d1) \<Longrightarrow>
     User_findAll d1 companyId r = User_findAll d companyId r
     \<and> (d1 \<noteq> d \<longrightarrow> User_findAll d companyId r \<noteq> [])"
  by (auto simp: category_and_role_def Let_def split: if_splits)

lemma assign_and_create_error:
  "fst (assign_and_create ty companyId cat r d1) = Inl e \<Longrightarrow>
     User_findAll d1 companyId r = [] \<and> snd (assign_and_create ty companyId cat r d1) = d1"
  by (auto simp: assign_and_create_def Ticket_create_def Let_def User_findAll_desc_Nil [symmetric]
      split: list.splits)

lemma acme_queries:
  "Company_findByPk acme_db 1 \<noteq> None"
  "Company_findByPk acme_db 2 \<noteq> None"
  "Company_findByPk acme_db 3 \<noteq> None"
  "User_findAll acme_db 1 director =
     [\<lparr>user_id = 3, user_role = director, user_companyId = 1, user_createdAt = 100\<rparr>]"
  "User_findAll acme_db 2 director =
     [\<lparr>user_id = 6, user_role = director, user_companyId = 2, user_createdAt = 200\<rparr>,
      \<lparr>user_id = 7, user_role = director, user_companyId = 2, user_createdAt = 250\<rparr>]"
  "User_findAll acme_db 3 director =
     [\<lparr>user_id = 8, user_role = director, user_companyId = 3, user_createdAt = 400\<rparr>]"
  "User_findAll acme_db 1 corporateSecretary =
     [\<lparr>user_id = 2, user_role = corporateSecretary, user_companyId = 1, user_createdAt = 100\<rparr>]"
  "User_findAll acme_db 2 corporateSecretary = []"
  "User_findAll acme_db 3 corporateSecretary = []"
  "User_findAll acme_db 1 accountant =
     [\<lparr>user_id = 1, user_role = accountant, user_companyId = 1, user_createdAt = 100\<rparr>]"
  "User_findAll acme_db 2 accountant =
     [\<lparr>user_id = 4, user_role = accountant, user_companyId = 2, user_createdAt = 200\<rparr>,
      \<lparr>user_id = 5, user_role = accountant, user_companyId = 2, user_createdAt = 300\<rparr>]"
  "has_ticket acme_db 1 registrationAddressChange"
  "\<not> has_ticket acme_db 3 registrationAddressChange"
  by (simp_all add: acme_db_def Company_findByPk_def User_findAll_def has_ticket_def)

subsection \<open>Creating a strikeOff ticket\<close>

text \<open>
  C1. For a company that exists and has exactly one director, a strikeOff request
  succeeds: it returns the new ticket, assigned to that director, and the ticket table
  afterwards is the old one, where exactly the tickets of this company that were open and
  not of type strikeOff are now resolved and all others are as before, followed by the
  new ticket. With no director or more than one, the call fails with a conflict and
  changes nothing. Company ids are database keys, which start at 1.
\<close>

theorem strikeOff_resolves:
  assumes "companyId \<noteq> 0" and "Company_findByPk d companyId \<noteq> None"
  shows "(length (User_findAll d companyId director) = 1 \<longrightarrow>
            create (request strikeOff companyId) d =
              (let t = \<lparr>ticket_id = next_ticket_id d, ticket_type = strikeOff,
                         ticket_companyId = companyId,
                         ticket_assigneeId = user_id (hd (User_findAll d companyId director)),
                         ticket_status = status_open, ticket_category = management\<rparr>
               in (Inr (ticketDto t),
                   d\<lparr>tickets :=
                       map (\<lambda>x. if ticket_companyId x = companyId
                                    \<and> ticket_status x = status_open
                                    \<and> ticket_type x \<noteq> strikeOff
                                 then x\<lparr>ticket_status := status_resolved\<rparr> else x) (tickets d)
                       @ [t],
                     next_ticket_id := next_ticket_id d + 1\<rparr>)))
       \<and> (length (User_findAll d companyId director) \<noteq> 1 \<longrightarrow>
            (\<exists>msg. create (request strikeOff companyId) d = (Inl (ConflictException msg), d)))"
proof (intro conjI impI)
  assume "length (User_findAll d companyId director) = 1"
  then obtain u where u: "User_findAll d companyId director = [u]"
    by (auto simp: length_one)
  then have desc: "User_findAll_desc (Ticket_update_resolved companyId d) companyId director = [u]"
    by (simp add: User_findAll_desc_def)
  show "create (request strikeOff companyId) d =
              (let t = \<lparr>ticket_id = next_ticket_id d, ticket_type = strikeOff,
                         ticket_companyId = companyId,
                         ticket_assigneeId = user_id (hd (User_findAll d companyId director)),
                         ticket_status = status_open, ticket_category = management\<rparr>
               in (Inr (ticketDto t),
                   d\<lparr>tickets :=
                       map (\<lambda>x. if ticket_companyId x = companyId
                                    \<and> ticket_status x = status_open
                                    \<and> ticket_type x \<noteq> strikeOff
                                 then x\<lparr>ticket_status := status_resolved\<rparr> else x) (tickets d)
                       @ [t],
                     next_ticket_id := next_ticket_id d + 1\<rparr>))"
    using assms u desc
    by (simp add: create_request category_and_role_def assign_and_create_def Ticket_create_def
        Ticket_update_resolved_def resolves_def Let_def)
next
  assume "length (User_findAll d companyId director) \<noteq> 1"
  then show "\<exists>msg. create (request strikeOff companyId) d = (Inl (ConflictException msg), d)"
    using assms by (simp add: create_request category_and_role_def Let_def)
qed

theorem strikeOff_resolves_witness:
  "(1::int) \<noteq> 0 \<and> Company_findByPk acme_db 1 \<noteq> None
   \<and> length (User_findAll acme_db 1 director) = 1
   \<and> create (request strikeOff 1) acme_db =
       (Inr \<lparr>id_dto = 5, type_dto = strikeOff, companyId_dto = 1, assigneeId_dto = 3,
              status_dto = status_open, category_dto = management\<rparr>,
        acme_db\<lparr>tickets :=
          [\<lparr>ticket_id = 1, ticket_type = managementReport, ticket_companyId = 1,
            ticket_assigneeId = 1, ticket_status = status_resolved, ticket_category = accounting\<rparr>,
           \<lparr>ticket_id = 2, ticket_type = registrationAddressChange, ticket_companyId = 1,
            ticket_assigneeId = 2, ticket_status = status_resolved, ticket_category = corporate\<rparr>,
           \<lparr>ticket_id = 3, ticket_type = strikeOff, ticket_companyId = 1,
            ticket_assigneeId = 3, ticket_status = status_open, ticket_category = management\<rparr>,
           \<lparr>ticket_id = 4, ticket_type = managementReport, ticket_companyId = 2,
            ticket_assigneeId = 4, ticket_status = status_open, ticket_category = accounting\<rparr>,
           \<lparr>ticket_id = 5, ticket_type = strikeOff, ticket_companyId = 1,
            ticket_assigneeId = 3, ticket_status = status_open, ticket_category = management\<rparr>],
          next_ticket_id := 6\<rparr>)
   \<and> (2::int) \<noteq> 0 \<and> Company_findByPk acme_db 2 \<noteq> None
   \<and> length (User_findAll acme_db 2 director) \<noteq> 1
   \<and> (\<exists>msg. create (request strikeOff 2) acme_db = (Inl (ConflictException msg), acme_db))"
  using strikeOff_resolves [of 1 acme_db] strikeOff_resolves [of 2 acme_db]
  by (simp add: acme_queries) (simp add: acme_db_def ticketDto_def)

subsection \<open>The corporate fallback chain\<close>

text \<open>
  C2. For a request of type registrationAddressChange or other on an existing company
  that passes the duplicate check: with exactly one corporate secretary the call returns
  a new open ticket of category corporate assigned to that secretary, and appends it to
  the ticket table; more than one secretary is a conflict; with none, exactly one
  director gets the new open ticket of category corporate, more than one is a conflict,
  and none is the conflict "No suitable assignee found". A conflict writes nothing.
\<close>

theorem corporate_fallback:
  assumes "ty = registrationAddressChange \<or> ty = other"
    and "companyId \<noteq> 0" and "Company_findByPk d companyId \<noteq> None"
    and "ty = registrationAddressChange \<longrightarrow> \<not> has_ticket d companyId registrationAddressChange"
  shows "(\<forall>s. User_findAll d companyId corporateSecretary = [s] \<longrightarrow>
            create (request ty companyId) d =
              (Inr \<lparr>id_dto = next_ticket_id d, type_dto = ty, companyId_dto = companyId,
                     assigneeId_dto = user_id s, status_dto = status_open,
                     category_dto = corporate\<rparr>,
               d\<lparr>tickets := tickets d @
                    [\<lparr>ticket_id = next_ticket_id d, ticket_type = ty,
                      ticket_companyId = companyId, ticket_assigneeId = user_id s,
                      ticket_status = status_open, ticket_category = corporate\<rparr>],
                  next_ticket_id := next_ticket_id d + 1\<rparr>))
       \<and> (length (User_findAll d companyId corporateSecretary) > 1 \<longrightarrow>
            create (request ty companyId) d =
              (Inl (ConflictException
                 ''Multiple corporate secretaries found. Cannot create a ticket''), d))
       \<and> (User_findAll d companyId corporateSecretary = [] \<longrightarrow>
            (\<forall>u. User_findAll d companyId director = [u] \<longrightarrow>
               create (request ty companyId) d =
                 (Inr \<lparr>id_dto = next_ticket_id d, type_dto = ty, companyId_dto = companyId,
                        assigneeId_dto = user_id u, status_dto = status_open,
                        category_dto = corporate\<rparr>,
                  d\<lparr>tickets := tickets d @
                       [\<lparr>ticket_id = next_ticket_id d, ticket_type = ty,
                         ticket_companyId = companyId, ticket_assigneeId = user_id u,
                         ticket_status = status_open, ticket_category = corporate\<rparr>],
                     next_ticket_id := next_ticket_id d + 1\<rparr>))
          \<and> (length (User_findAll d companyId director) > 1 \<longrightarrow>
               create (request ty companyId) d =
                 (Inl (ConflictException ''Multiple directors found. Cannot create a ticket''), d))
          \<and> (User_findAll d companyId director = [] \<longrightarrow>
               create (request ty companyId) d =
                 (Inl (ConflictException ''No suitable assignee found for this ticket type''), d)))"
proof -
  from assms have c: "create (request ty companyId) d =
        (case category_and_role ty companyId d of
           (Inl e, d1) \<Rightarrow> (Inl e, d1)
         | (Inr (cat, userRole), d1) \<Rightarrow> assign_and_create ty companyId cat userRole d1)"
    by (auto simp: create_request Ticket_findOne_None)
  from assms(1) have t: "ty \<noteq> managementReport" "ty \<noteq> strikeOff" by auto
  show ?thesis
    unfolding c using t
    by (auto simp: category_and_role_def assign_and_create_def Ticket_create_def ticketDto_def
        Let_def User_findAll_desc_single)
qed

theorem corporate_fallback_witness:
  "create (request other 1) acme_db =
     (Inr \<lparr>id_dto = 5, type_dto = other, companyId_dto = 1, assigneeId_dto = 2,
            status_dto = status_open, category_dto = corporate\<rparr>,
      acme_db\<lparr>tickets := tickets acme_db @
           [\<lparr>ticket_id = 5, ticket_type = other, ticket_companyId = 1, ticket_assigneeId = 2,
             ticket_status = status_open, ticket_category = corporate\<rparr>],
         next_ticket_id := 6\<rparr>)
   \<and> create (request registrationAddressChange 3) acme_db =
     (Inr \<lparr>id_dto = 5, type_dto = registrationAddressChange, companyId_dto = 3,
            assigneeId_dto = 8, status_dto = status_open, category_dto = corporate\<rparr>,
      acme_db\<lparr>tickets := tickets acme_db @
           [\<lparr>ticket_id = 5, ticket_type = registrationAddressChange, ticket_companyId = 3,
             ticket_assigneeId = 8, ticket_status = status_open,
             ticket_category = corporate\<rparr>],
         next_ticket_id := 6\<rparr>)
   \<and> create (request other 2) acme_db =
       (Inl (ConflictException ''Multiple directors found. Cannot create a ticket''), acme_db)"
  using corporate_fallback [of other 1 acme_db]
    corporate_fallback [of registrationAddressChange 3 acme_db]
    corporate_fallback [of other 2 acme_db]
  by (simp add: acme_queries) (simp add: acme_db_def)

subsection \<open>The duplicate check of registrationAddressChange\<close>

text \<open>
  C4, as the specification states it, fails: the lookup has no condition on the status,
  so a company whose only registrationAddressChange ticket is resolved is rejected too.
\<close>

theorem resolved_duplicate_counterexample:
  "\<not> has_open_ticket acme_db 1 registrationAddressChange
   \<and> create (request registrationAddressChange 1) acme_db =
       (Inl (ConflictException
          ''A registrationAddressChange ticket already exists for this company''), acme_db)"
  by (simp add: has_open_ticket_def acme_db_def create_def request_def TicketType_values_def
      Company_findByPk_def Ticket_findOne_def)

text \<open>
  C4, amended. On an existing company a registrationAddressChange request is rejected by
  the duplicate check, with the conflict "A registrationAddressChange ticket already
  exists for this company", if and only if the company has a ticket of that type in any
  status.
\<close>

theorem duplicate_check_ignores_status:
  assumes "companyId \<noteq> 0" and "Company_findByPk d companyId \<noteq> None"
  shows "create (request registrationAddressChange companyId) d =
           (Inl (ConflictException
              ''A registrationAddressChange ticket already exists for this company''), d)
         \<longleftrightarrow> has_ticket d companyId registrationAddressChange"
proof (cases "has_ticket d companyId registrationAddressChange")
  case True
  with assms show ?thesis
    by (simp add: create_request Ticket_findOne_None)
next
  case False
  have "fst (create (request registrationAddressChange companyId) d) \<noteq>
          Inl (ConflictException
              ''A registrationAddressChange ticket already exists for this company'')"
    using assms False
    by (auto simp: create_request Ticket_findOne_None category_and_role_def Let_def
        assign_and_create_def Ticket_create_def split: list.splits)
  with False show ?thesis by auto
qed

theorem duplicate_check_ignores_status_witness:
  "has_ticket acme_db 1 registrationAddressChange
   \<and> create (request registrationAddressChange 1) acme_db =
      (Inl (ConflictException
              ''A registrationAddressChange ticket already exists for this company''), acme_db)
   \<and> \<not> has_ticket acme_db 3 registrationAddressChange
   \<and> create (request registrationAddressChange 3) acme_db \<noteq>
      (Inl (ConflictException
              ''A registrationAddressChange ticket already exists for this company''), acme_db)"
  using duplicate_check_ignores_status [of 1 acme_db] duplicate_check_ignores_status [of 3 acme_db]
  by (simp add: acme_queries)

subsection \<open>The assignee of a managementReport ticket\<close>

text \<open>
  C5. On an existing company with exactly one accountant, a managementReport request
  returns a new open ticket with category accounting and that accountant's id as
  assignee, and appends it to the ticket table. With more than one accountant the ticket
  is created as well, with category accounting and the id of an accountant of the
  company whose creation time no other accountant of the company exceeds.
\<close>

theorem managementReport_assignee:
  assumes "companyId \<noteq> 0" and "Company_findByPk d companyId \<noteq> None"
  shows "(\<forall>a. User_findAll d companyId accountant = [a] \<longrightarrow>
            create (request managementReport companyId) d =
              (Inr \<lparr>id_dto = next_ticket_id d, type_dto = managementReport, companyId_dto = companyId,
                     assigneeId_dto = user_id a, status_dto = status_open,
                     category_dto = accounting\<rparr>,
               d\<lparr>tickets := tickets d @
                    [\<lparr>ticket_id = next_ticket_id d, ticket_type = managementReport,
                      ticket_companyId = companyId, ticket_assigneeId = user_id a,
                      ticket_status = status_open, ticket_category = accounting\<rparr>],
                  next_ticket_id := next_ticket_id d + 1\<rparr>))
       \<and> (length (User_findAll d companyId accountant) > 1 \<longrightarrow>
            (\<exists>a \<in> set (User_findAll d companyId accountant).
               (\<forall>u \<in> set (User_findAll d companyId accountant).
                  user_createdAt u \<le> user_createdAt a)
               \<and> create (request managementReport companyId) d =
                   (Inr \<lparr>id_dto = next_ticket_id d, type_dto = managementReport, companyId_dto = companyId,
                          assigneeId_dto = user_id a, status_dto = status_open,
                          category_dto = accounting\<rparr>,
                    d\<lparr>tickets := tickets d @
                         [\<lparr>ticket_id = next_ticket_id d, ticket_type = managementReport,
                           ticket_companyId = companyId, ticket_assigneeId = user_id a,
                           ticket_status = status_open, ticket_category = accounting\<rparr>],
                       next_ticket_id := next_ticket_id d + 1\<rparr>)))"
proof (intro conjI allI impI)
  fix a assume "User_findAll d companyId accountant = [a]"
  with assms show "create (request managementReport companyId) d =
              (Inr \<lparr>id_dto = next_ticket_id d, type_dto = managementReport, companyId_dto = companyId,
                     assigneeId_dto = user_id a, status_dto = status_open,
                     category_dto = accounting\<rparr>,
               d\<lparr>tickets := tickets d @
                    [\<lparr>ticket_id = next_ticket_id d, ticket_type = managementReport,
                      ticket_companyId = companyId, ticket_assigneeId = user_id a,
                      ticket_status = status_open, ticket_category = accounting\<rparr>],
                  next_ticket_id := next_ticket_id d + 1\<rparr>)"
    by (simp add: create_request category_and_role_def assign_and_create_def Ticket_create_def
        ticketDto_def Let_def User_findAll_desc_single)
next
  assume "length (User_findAll d companyId accountant) > 1"
  then have "User_findAll_desc d companyId accountant \<noteq> []"
    by (auto simp: User_findAll_desc_Nil)
  then obtain a as where s: "User_findAll_desc d companyId accountant = a # as"
    by (cases "User_findAll_desc d companyId accountant") auto
  from assms s have "create (request managementReport companyId) d =
              (Inr \<lparr>id_dto = next_ticket_id d, type_dto = managementReport, companyId_dto = companyId,
                     assigneeId_dto = user_id a, status_dto = status_open,
                     category_dto = accounting\<rparr>,
               d\<lparr>tickets := tickets d @
                    [\<lparr>ticket_id = next_ticket_id d, ticket_type = managementReport,
                      ticket_companyId = companyId, ticket_assigneeId = user_id a,
                      ticket_status = status_open, ticket_category = accounting\<rparr>],
                  next_ticket_id := next_ticket_id d + 1\<rparr>)"
    by (simp add: create_request category_and_role_def assign_and_create_def Ticket_create_def
        ticketDto_def Let_def)
  with User_findAll_desc_hd [OF s]
  show "\<exists>a \<in> set (User_findAll d companyId accountant).
               (\<forall>u \<in> set (User_findAll d companyId accountant).
                  user_createdAt u \<le> user_createdAt a)
               \<and> create (request managementReport companyId) d =
                   (Inr \<lparr>id_dto = next_ticket_id d, type_dto = managementReport, companyId_dto = companyId,
                          assigneeId_dto = user_id a, status_dto = status_open,
                          category_dto = accounting\<rparr>,
                    d\<lparr>tickets := tickets d @
                         [\<lparr>ticket_id = next_ticket_id d, ticket_type = managementReport,
                           ticket_companyId = companyId, ticket_assigneeId = user_id a,
                           ticket_status = status_open, ticket_category = accounting\<rparr>],
                       next_ticket_id := next_ticket_id d + 1\<rparr>)"
    by blast
qed

theorem managementReport_assignee_witness:
  "create (request managementReport 1) acme_db =
     (Inr \<lparr>id_dto = 5, type_dto = managementReport, companyId_dto = 1, assigneeId_dto = 1,
            status_dto = status_open, category_dto = accounting\<rparr>,
      acme_db\<lparr>tickets := tickets acme_db @
           [\<lparr>ticket_id = 5, ticket_type = managementReport, ticket_companyId = 1,
             ticket_assigneeId = 1, ticket_status = status_open,
             ticket_category = accounting\<rparr>],
         next_ticket_id := 6\<rparr>)
   \<and> (\<exists>a \<in> set (User_findAll acme_db 2 accountant).
        (\<forall>u \<in> set (User_findAll acme_db 2 accountant). user_createdAt u \<le> user_createdAt a)
        \<and> create (request managementReport 2) acme_db =
     (Inr \<lparr>id_dto = 5, type_dto = managementReport, companyId_dto = 2,
            assigneeId_dto = user_id a, status_dto = status_open,
            category_dto = accounting\<rparr>,
      acme_db\<lparr>tickets := tickets acme_db @
           [\<lparr>ticket_id = 5, ticket_type = managementReport, ticket_companyId = 2,
             ticket_assigneeId = user_id a, ticket_status = status_open,
             ticket_category = accounting\<rparr>],
         next_ticket_id := 6\<rparr>))"
  using managementReport_assignee [of 1 acme_db] managementReport_assignee [of 2 acme_db]
  by (simp add: acme_queries) (simp add: acme_db_def)

subsection \<open>Failed calls write nothing\<close>

text \<open>
  C9. Whenever \<^verbatim>\<open>create\<close> fails, with whatever error, the database after the call is
  the database before it: no ticket is created and no status is changed. In the
  strikeOff branch the update runs once exactly one director is found, and the lookup of
  the assignee that follows finds that director again.
\<close>

theorem create_error_no_write:
  assumes "fst (create newTicket d) = Inl e"
  shows "snd (create newTicket d) = d"
proof (cases "\<exists>ty companyId. create newTicket d =
    (case category_and_role ty companyId d of
       (Inl e, d1) \<Rightarrow> (Inl e, d1)
     | (Inr (cat, userRole), d1) \<Rightarrow> assign_and_create ty companyId cat userRole d1)")
  case False
  then show ?thesis
    by (auto simp: create_def split: option.splits if_splits)
next
  case True
  then obtain ty companyId where c: "create newTicket d =
    (case category_and_role ty companyId d of
       (Inl e, d1) \<Rightarrow> (Inl e, d1)
     | (Inr (cat, userRole), d1) \<Rightarrow> assign_and_create ty companyId cat userRole d1)"
    by blast
  obtain res d1 where r: "category_and_role ty companyId d = (res, d1)"
    by (cases "category_and_role ty companyId d")
  show ?thesis
  proof (cases res)
    case (Inl e')
    with r c category_and_role_error [of ty companyId d e' d1] show ?thesis by simp
  next
    case (Inr p)
    obtain cat ro where p: "p = (cat, ro)" by (cases p)
    from c r Inr p have c': "create newTicket d = assign_and_create ty companyId cat ro d1"
      by simp
    with assms have "User_findAll d1 companyId ro = []"
      and s: "snd (assign_and_create ty companyId cat ro d1) = d1"
      using assign_and_create_error by auto
    with category_and_role_users [of ty companyId d cat ro d1] r Inr p have "d1 = d"
      by auto
    with s c' show ?thesis by simp
  qed
qed

theorem create_error_no_write_witness:
  "fst (create (request strikeOff 2) acme_db) =
     Inl (ConflictException ''Multiple directors found. Cannot create a strikeOff ticket'')
   \<and> snd (create (request strikeOff 2) acme_db) = acme_db"
proof -
  have f: "fst (create (request strikeOff 2) acme_db) =
     Inl (ConflictException ''Multiple directors found. Cannot create a strikeOff ticket'')"
    by (simp add: create_request acme_queries category_and_role_def)
  from create_error_no_write [OF f] f show ?thesis by simp
qed

section \<open>The ledger reports: lemmas and theorems\<close>

subsection \<open>Numbers\<close>

lemma floor_rat_numeral [simp]:
  "\<lfloor>(numeral a :: rat) / numeral b\<rfloor> = numeral a div numeral b"
  using floor_divide_of_int_eq [of "numeral a" "numeral b", where ?'a = rat] by simp

lemma decimal_digits_small: "n < 10 \<Longrightarrow> decimal_digits n = [digit_char n]"
  by (subst decimal_digits.simps) simp

lemma decimal_digits_large:
  "10 \<le> n \<Longrightarrow> decimal_digits n = decimal_digits (n div 10) @ [digit_char (n mod 10)]"
  by (subst decimal_digits.simps) simp

lemma decimal_digits_numeral:
  "numeral k < (10::nat) \<Longrightarrow> decimal_digits (numeral k) = [digit_char (numeral k)]"
  "(10::nat) \<le> numeral k \<Longrightarrow> decimal_digits (numeral k) =
     decimal_digits (numeral k div 10) @ [digit_char (numeral k mod 10)]"
  "decimal_digits 0 = ''0''"
  "decimal_digits (Suc 0) = ''1''"
  by (simp_all only: decimal_digits_small decimal_digits_large)
    (simp_all add: decimal_digits_small digit_char_def)

text \<open>The equations that evaluate the reading and the printing of a number.\<close>

lemmas number_eval =
  toFixed2_def decimal_digits_numeral digit_char_def parseFloat_def StrDecimalLiteral_def
  StrUnsignedDecimalLiteral_def is_white_space_def is_digit_def nat_of_digits_def
  digit_value_def scale10_def ExponentPart_def SignedInteger_def number_sub_def amount_def

lemma number_add_zero_left [simp]: "number_add (Fin 0) n = n"
  by (cases n) simp_all

lemma number_add_NaN [simp]: "number_add n NaN = NaN"
  by (cases n) simp_all







subsection \<open>Lines\<close>

text \<open>The equations that evaluate the fields of a line.\<close>

lemmas line_eval =
  split_on.simps field_def property_key_def account_of_def debit_of_def credit_of_def
  line_amount_def numeric_line_def is_finite_def fin_value_def is_cash_def

lemma split_on_not_Nil: "split_on sep s \<noteq> []"
  by (induction s) (auto split: list.splits)




subsection \<open>Lists\<close>


lemma first_seen_Nil [simp]: "first_seen [] = []"
  by (simp add: first_seen_def)



lemma foldl_nested: "foldl (\<lambda>a xs. foldl f a xs) a xss = foldl f a (concat xss)"
  by (induction xss arbitrary: a) simp_all


subsection \<open>Association lists\<close>

lemma map_of_tabulate:
  "map_of (map (\<lambda>a. (a, g a)) ks) k = (if k \<in> set ks then Some (g k) else None)"
  by (induction ks) auto

lemma update_tabulate_in:
  "distinct ks \<Longrightarrow> k \<in> set ks \<Longrightarrow>
     AList.update k v (map (\<lambda>a. (a, g a)) ks) = map (\<lambda>a. (a, if a = k then v else g a)) ks"
  by (induction ks) auto


subsection \<open>Tallying under a key\<close>

text \<open>The equations that evaluate the operations on an object.\<close>

lemmas object_eval =
  obj_get_def obj_set_def Object_prototype_keys_def Object_entries_def Object_keys_def
  is_array_index_def falsy_def





text \<open>
  The object after a loop that tallies the amount of each line under the key of the line:
  the keys in first-seen order, each with the running balance of its lines.
\<close>

lemma running_balance_Nil: "running_balance [] = Fin 0"
  by (simp add: running_balance_def)


lemma restart_add_zero [simp]: "restart_add (Fin 0) n = n"
  by (simp add: restart_add_def falsy_def)



subsection \<open>Rows\<close>









subsection \<open>The trial balance\<close>







text \<open>
  A balance that a malformed field has turned into NaN starts again from 0 at the next
  line of the account.
\<close>

lemma accounts_restart_after_NaN:
  "accounts [file_restart] = Inr [''Account,Balance'', ''Cash,5.00'']"
  by (simp add: file_restart_def file_malformed_def accounts_def accounts_line_def line_eval object_eval
      number_eval Let_def)

subsection \<open>Year keys\<close>






subsection \<open>The yearly cash report\<close>











lemma yearly_restart_after_NaN:
  "yearly leading_year [file_restart] = Inr [''Financial Year,Cash Balance'', ''2024,5.00'']"
  by (simp add: file_restart_def file_malformed_def yearly_def yearly_rows_def yearly_line_def year_toString_def
      integer_toString_def leading_year_def line_eval object_eval number_eval Let_def)

subsection \<open>Fields that are not numbers\<close>











subsection \<open>The financial statement\<close>

lemmas taxonomy_defs = Revenues_def Expenses_def Assets_def Liabilities_def Equity_def

lemma taxonomy_distinct: "distinct (Revenues @ Expenses @ Assets @ Liabilities @ Equity)"
  by (simp add: taxonomy_defs)

lemma relevantAccounts_taxonomy:
  "relevantAccounts = set (Revenues @ Expenses @ Assets @ Liabilities @ Equity)"
  by (simp add: relevantAccounts_def initial_balances_def comp_def image_Un)

text \<open>A line changes the balance of its account, if that is an account of the taxonomy.\<close>

lemma fs_line_tabulate:
  assumes "distinct ks" and "set ks = relevantAccounts"
  shows "fs_line (map (\<lambda>a. (a, g a)) ks) line =
     map (\<lambda>a. (a, if field (split_on CHR '','' line) 1 = Some a
                    then number_add (g a) (line_amount (split_on CHR '','' line)) else g a)) ks"
proof (cases "field (split_on CHR '','' line) 1")
  case None
  then show ?thesis by (simp add: fs_line_def)
next
  case (Some account)
  show ?thesis
  proof (cases "account \<in> set ks")
    case True
    with Some assms show ?thesis
      by (simp add: fs_line_def map_of_tabulate update_tabulate_in cong: map_cong)
  next
    case False
    with Some assms have "fs_line (map (\<lambda>a. (a, g a)) ks) line = map (\<lambda>a. (a, g a)) ks"
      by (simp add: fs_line_def)
    also from False Some have "\<dots> =
       map (\<lambda>a. (a, if field (split_on CHR '','' line) 1 = Some a
                      then number_add (g a) (line_amount (split_on CHR '','' line)) else g a)) ks"
      by (intro map_cong) auto
    finally show ?thesis .
  qed
qed

lemma fs_fold:
  assumes "distinct ks" and "set ks = relevantAccounts"
  shows "foldl fs_line (map (\<lambda>a. (a, Fin 0)) ks) ls = map (\<lambda>a. (a, fs_balance ls a)) ks"
proof (induction ls rule: rev_induct)
  case Nil
  then show ?case by (simp add: fs_balance_def)
next
  case (snoc l ls)
  then show ?case
    by (simp add: fs_line_tabulate [OF assms] fs_balance_def cong: map_cong)
qed

lemma fs_balances_eq:
  "fs_balances allFileData =
     map (\<lambda>a. (a, fs_balance (concat allFileData) a))
       (Revenues @ Expenses @ Assets @ Liabilities @ Equity)"
  unfolding fs_balances_def foldl_nested initial_balances_def
  by (rule fs_fold [OF taxonomy_distinct]) (simp add: relevantAccounts_taxonomy)

lemma group_rows_eq:
  "group_rows balances grp (out, tot) =
     (out @ map (\<lambda>a. a @ '','' @ toFixed2 (value_or_zero (map_of balances a))) grp,
      foldl number_add tot (map (\<lambda>a. value_or_zero (map_of balances a)) grp))"
  by (induction grp arbitrary: out tot) (simp_all add: group_rows_def Let_def)

lemma shown_taxonomy:
  assumes "a \<in> set (Revenues @ Expenses @ Assets @ Liabilities @ Equity)"
  shows "value_or_zero (map_of (fs_balances allFileData) a) = shown (concat allFileData) a"
  using assms unfolding fs_balances_eq shown_def map_of_tabulate by simp

text \<open>The lines of the statement, in terms of the values shown and their totals.\<close>

lemma fs_layout:
  "fs allFileData =
     (let ls = concat allFileData;
          totalEquity = number_add (group_total ls Equity) (net_income ls)
      in [''Basic Financial Statement'', '''', ''Income Statement'']
         @ rows ls Revenues @ rows ls Expenses
         @ [''Net Income,'' @ toFixed2 (net_income ls), '''', ''Balance Sheet'', ''Assets'']
         @ rows ls Assets
         @ [''Total Assets,'' @ toFixed2 (group_total ls Assets), '''', ''Liabilities'']
         @ rows ls Liabilities
         @ [''Total Liabilities,'' @ toFixed2 (group_total ls Liabilities), '''', ''Equity'']
         @ rows ls Equity
         @ [''Retained Earnings (Net Income),'' @ toFixed2 (net_income ls),
            ''Total Equity,'' @ toFixed2 totalEquity, '''',
            ''Assets = Liabilities + Equity, '' @ toFixed2 (group_total ls Assets) @ '' = ''
              @ toFixed2 (number_add (group_total ls Liabilities) totalEquity)])"
proof -
  have sh: "value_or_zero (map_of (fs_balances allFileData) a) = shown (concat allFileData) a"
    if "a \<in> set grp" and "grp \<in> {Revenues, Expenses, Assets, Liabilities, Equity}" for a grp
    using that by (intro shown_taxonomy) auto
  have g: "map (\<lambda>a. value_or_zero (map_of (fs_balances allFileData) a)) grp =
           map (shown (concat allFileData)) grp"
    if "grp \<in> {Revenues, Expenses, Assets, Liabilities, Equity}" for grp
    by (rule map_cong [OF refl]) (rule sh [OF _ that])
  have r: "map (\<lambda>a. a @ CHR '','' #
                     toFixed2 (value_or_zero (map_of (fs_balances allFileData) a))) grp
           = rows (concat allFileData) grp"
    if "grp \<in> {Revenues, Expenses, Assets, Liabilities, Equity}" for grp
    unfolding rows_def by (rule map_cong [OF refl]) (simp add: sh [OF _ that])
  show ?thesis
    by (simp add: fs_def fs_output_def group_rows_eq g r Let_def group_total_def net_income_def)
qed















text \<open>
  A balance that a malformed field has turned into NaN stays NaN in \<^verbatim>\<open>fs\<close> and is
  shown as 0.00.
\<close>

lemma fs_shows_zero_for_NaN:
  "fs [file_restart] ! 14 = ''Cash,0.00''"
  by (simp add: fs_layout Let_def rows_def nth_append Revenues_def Expenses_def Assets_def
      file_restart_def file_malformed_def shown_def fs_balance_def value_or_zero_def line_eval
      falsy_def number_eval)

end
